theory Spec2Isabelle
  imports Main "HOL-Library.Multiset"
begin

section \<open>JavaScript strings and numbers\<close>

text \<open>
  Strings are lists of characters. Numbers that the bot handles (points, contest ids,
  ranks, whole seconds) are integers; \<open>show_int\<close> is \<open>Number.prototype.toString\<close> and the
  template-literal conversion on integers.
\<close>

definition digit_char :: "nat \<Rightarrow> char" where
  "digit_char d = ''0123456789'' ! d"

fun show_nat :: "nat \<Rightarrow> string" where
  "show_nat n = (if n < 10 then [digit_char n] else show_nat (n div 10) @ [digit_char (n mod 10)])"

declare show_nat.simps [simp del]

definition show_int :: "int \<Rightarrow> string" where
  "show_int k = (if k < 0 then CHR ''-'' # show_nat (nat (- k)) else show_nat (nat k))"

text \<open>The remainder operator \<open>%\<close> of JavaScript truncates towards zero.\<close>

definition js_rem :: "int \<Rightarrow> int \<Rightarrow> int" where
  "js_rem a b = sgn a * (\<bar>a\<bar> mod \<bar>b\<bar>)"

definition is_digit :: "char \<Rightarrow> bool" where
  "is_digit c = (c \<in> set ''0123456789'')"

definition is_upper_or_digit :: "char \<Rightarrow> bool" where
  "is_upper_or_digit c = (c \<in> set ''ABCDEFGHIJKLMNOPQRSTUVWXYZ0123456789'')"

text \<open>The white space that \<open>parseInt\<close> skips, as far as it is ASCII.\<close>

definition is_space :: "char \<Rightarrow> bool" where
  "is_space c = (c \<in> set [CHR 0x09, CHR 0x0A, CHR 0x0B, CHR 0x0C, CHR 0x0D, CHR 0x20])"

definition digit_val :: "char \<Rightarrow> nat" where
  "digit_val c = of_char c - 48"

definition digits_val :: "string \<Rightarrow> nat" where
  "digits_val ds = foldl (\<lambda>acc c. 10 * acc + digit_val c) 0 ds"

text \<open>\<open>parseInt(s, 10)\<close>: \<open>None\<close> is \<open>NaN\<close>.\<close>

definition parseInt :: "string \<Rightarrow> int option" where
  "parseInt s =
     (let t = dropWhile is_space s;
          neg = (case t of [] \<Rightarrow> False | c # _ \<Rightarrow> c = CHR ''-'');
          r = (case t of [] \<Rightarrow> [] | c # cs \<Rightarrow> if c = CHR ''-'' \<or> c = CHR ''+'' then cs else t);
          ds = takeWhile is_digit r
      in if ds = [] then None
         else Some (if neg then - int (digits_val ds) else int (digits_val ds)))"

text \<open>\<open>s.split(c)\<close> for a one-character separator: the result is never empty.\<close>

fun split_on :: "char \<Rightarrow> string \<Rightarrow> string list" where
  "split_on c [] = [[]]"
| "split_on c (x # xs) =
     (if x = c then [] # split_on c xs
      else (case split_on c xs of [] \<Rightarrow> [[x]] | p # ps \<Rightarrow> (x # p) # ps))"

text \<open>Reading an array at an index: \<open>None\<close> is \<open>undefined\<close>.\<close>

fun nth_opt :: "'a list \<Rightarrow> nat \<Rightarrow> 'a option" where
  "nth_opt [] i = None"
| "nth_opt (x # xs) 0 = Some x"
| "nth_opt (x # xs) (Suc i) = nth_opt xs i"

text \<open>\<open>!s\<close> for an optional string: \<open>undefined\<close>, \<open>null\<close> and the empty string are falsy.\<close>

definition falsy :: "string option \<Rightarrow> bool" where
  "falsy s = (case s of None \<Rightarrow> True | Some t \<Rightarrow> t = [])"

fun strip_prefix :: "string \<Rightarrow> string \<Rightarrow> string option" where
  "strip_prefix [] s = Some s"
| "strip_prefix (p # ps) [] = None"
| "strip_prefix (p # ps) (c # cs) = (if p = c then strip_prefix ps cs else None)"

definition startsWith :: "string \<Rightarrow> string \<Rightarrow> bool" where
  "startsWith s p = (strip_prefix p s \<noteq> None)"

text \<open>\<open>xs.findIndex(P)\<close>, with \<open>None\<close> for \<open>-1\<close>.\<close>

fun find_index_opt :: "('a \<Rightarrow> bool) \<Rightarrow> 'a list \<Rightarrow> nat option" where
  "find_index_opt P [] = None"
| "find_index_opt P (x # xs) = (if P x then Some 0 else map_option Suc (find_index_opt P xs))"

section \<open>formatUptime\<close>

text \<open>
  \<open>formatUptime\<close> on a whole number of seconds. \<open>Math.floor(a / b)\<close> is \<open>a div b\<close> for
  a positive divisor; each \<open>seconds %= k\<close> gives a new variable.
\<close>

definition formatUptime :: "int \<Rightarrow> string" where
  "formatUptime seconds0 =
     (let days = seconds0 div 86400;
          seconds1 = js_rem seconds0 86400;
          hours = seconds1 div 3600;
          seconds2 = js_rem seconds1 3600;
          minutes = seconds2 div 60;
          seconds3 = js_rem seconds2 60
      in show_int days @ ''d, '' @ show_int hours @ ''h, '' @ show_int minutes @ ''m, ''
           @ show_int seconds3 @ ''s'')"

section \<open>The URL pattern of setdailyproblem\<close>

text \<open>
  The regular expression \<^verbatim>\<open>/\/(?:contest|problemset)\/problem\/(\d+)\/([A-Z0-9]+)/\<close>.
  \<open>match_tail\<close> is the part after the alternation: \<^verbatim>\<open>\/problem\/(\d+)\/([A-Z0-9]+)\<close>.
  The digits are followed by a slash, which is no digit, so the greedy \<^verbatim>\<open>\d+\<close> never has
  to give a digit back. \<open>match_here\<close> matches at the start of the string and
  \<open>regex_match\<close> searches for the leftmost position, as \<open>String.prototype.match\<close> does;
  the result holds the two capture groups.
\<close>

definition match_tail :: "string \<Rightarrow> (string \<times> string) option" where
  "match_tail s =
     (case strip_prefix ''/problem/'' s of
        None \<Rightarrow> None
      | Some r \<Rightarrow>
          (let ds = takeWhile is_digit r
           in if ds = [] then None
              else (case strip_prefix ''/'' (dropWhile is_digit r) of
                      None \<Rightarrow> None
                    | Some r' \<Rightarrow>
                        (let ix = takeWhile is_upper_or_digit r'
                         in if ix = [] then None else Some (ds, ix)))))"

definition match_here :: "string \<Rightarrow> (string \<times> string) option" where
  "match_here s =
     (case (case strip_prefix ''/contest'' s of None \<Rightarrow> None | Some r \<Rightarrow> match_tail r) of
        Some m \<Rightarrow> Some m
      | None \<Rightarrow> (case strip_prefix ''/problemset'' s of None \<Rightarrow> None | Some r \<Rightarrow> match_tail r))"

fun regex_match :: "string \<Rightarrow> (string \<times> string) option" where
  "regex_match [] = match_here []"
| "regex_match (c # cs) =
     (case match_here (c # cs) of Some m \<Rightarrow> Some m | None \<Rightarrow> regex_match cs)"

section \<open>Records of the document store and of the judge\<close>

text \<open>
  The two collections. \<open>user_oid\<close> is the \<open>_id\<close> that the store gives a user document,
  \<open>user_id\<close> the schema's own field \<open>id\<close> (the platform's user id). A member entry refers to a
  user by \<open>_id\<close>; the stored reference can be \<open>null\<close>, which is \<open>None\<close>.
\<close>

record UserRecord =
  user_oid :: nat
  user_id :: string
  cfUsername :: string
  user_guildId :: string

record Member =
  user :: "nat option"
  points :: int
  lastSubmitted :: "string option"

record ServerRecord =
  daily :: "string option"
  members :: "Member list"
  guildId :: string
  channelId :: "string option"
  announcementChannelId :: "string option"
  messageId :: "string option"

record DB =
  users :: "UserRecord list"
  servers :: "ServerRecord list"

text \<open>
  What the judge answers. A request either fails (\<open>HttpError\<close>, the \<open>catch\<close> branch at the
  call site) or gives a body with a status and a result. A problem's \<open>contestId\<close> can be
  absent in the judge's answers, and so can a submission's verdict.
\<close>

record Problem =
  contestId :: "int option"
  index :: string

record Submission =
  problem :: Problem
  verdict :: "string option"

datatype 'a api_response = HttpError | ApiResponse string 'a

record Judge =
  user_status :: "string \<Rightarrow> Submission list api_response"
  user_status_last :: "string \<Rightarrow> Submission list api_response"
  problemset_problems :: "Problem list api_response"

text \<open>
  What the chat platform answers: whether \<open>fetchTextChannel\<close> finds a text channel, the id
  of the message that \<open>channel.send\<close> creates (\<open>None\<close> when it throws), whether
  \<open>channel.messages.fetch\<close> finds a message, and whether \<open>message.edit\<close> succeeds.
\<close>

record Discord =
  text_channel :: "string \<Rightarrow> bool"
  channel_send :: "string \<Rightarrow> string \<Rightarrow> string option"
  message_exists :: "string \<Rightarrow> string \<Rightarrow> bool"
  message_edit :: "string \<Rightarrow> string \<Rightarrow> string \<Rightarrow> bool"

datatype error = InvalidProblemId | TypeError

text \<open>\<open>populate("members.user")\<close>: each reference is replaced by the user document, or by
  \<open>null\<close> when no user has that \<open>_id\<close>.\<close>

definition populate :: "UserRecord list \<Rightarrow> Member list \<Rightarrow> (Member \<times> UserRecord option) list" where
  "populate us ms =
     map (\<lambda>m. (m, case user m of None \<Rightarrow> None | Some r \<Rightarrow> find (\<lambda>u. user_oid u = r) us)) ms"

text \<open>
  What saving a populated member array stores for each entry: the \<open>_id\<close> of the user
  document it holds, and \<open>null\<close> where the user was not resolved.
\<close>

definition depopulate :: "Member \<times> UserRecord option \<Rightarrow> Member" where
  "depopulate q = (fst q)\<lparr>user := map_option user_oid (snd q)\<rparr>"

section \<open>Leaderboard rendering\<close>

text \<open>
  \<open>members.sort((a, b) => (b.points || 0) - (a.points || 0))\<close>: a stable sort, descending
  by points.
\<close>

definition sort_members :: "(Member \<times> UserRecord option) list \<Rightarrow> (Member \<times> UserRecord option) list" where
  "sort_members pms = sort_key (\<lambda>p. - points (fst p)) pms"

definition leaderboard_header :: string where
  "leaderboard_header = ''**Leaderboard for Daily Problem**'' @ [CHR 0x0A, CHR 0x0A]"

definition leaderboard_line :: "nat \<Rightarrow> UserRecord \<Rightarrow> Member \<Rightarrow> string" where
  "leaderboard_line currentRank u member =
     show_int (int currentRank) @ ''. <@'' @ user_id u @ ''> - '' @ show_int (points member)
       @ '' point(s)'' @ [CHR 0x0A]"

text \<open>
  The loop of \<open>updateLeaderboard\<close> over the members from index \<open>i\<close> on, with the loop
  variables \<open>currentRank\<close>, \<open>lastPoints\<close> and \<open>leaderboardText\<close>.
\<close>

fun updateLeaderboard_loop ::
  "(Member \<times> UserRecord option) list \<Rightarrow> nat \<Rightarrow> nat \<Rightarrow> int \<Rightarrow> string \<Rightarrow> string" where
  "updateLeaderboard_loop [] i currentRank lastPoints leaderboardText = leaderboardText"
| "updateLeaderboard_loop ((member, None) # rest) i currentRank lastPoints leaderboardText =
     updateLeaderboard_loop rest (i + 1) currentRank lastPoints leaderboardText"
| "updateLeaderboard_loop ((member, Some u) # rest) i currentRank lastPoints leaderboardText =
     (let currentRank' = (if points member \<noteq> lastPoints then i + 1 else currentRank);
          lastPoints' = (if points member \<noteq> lastPoints then points member else lastPoints)
      in updateLeaderboard_loop rest (i + 1) currentRank' lastPoints'
           (leaderboardText @ leaderboard_line currentRank' u member))"

definition updateLeaderboard_text :: "(Member \<times> UserRecord option) list \<Rightarrow> string" where
  "updateLeaderboard_text pms =
     updateLeaderboard_loop (sort_members pms) 0 0 (- 1) leaderboard_header"

text \<open>The same loop as the handler of the leaderboard command writes it.\<close>

fun leaderboard_loop ::
  "(Member \<times> UserRecord option) list \<Rightarrow> nat \<Rightarrow> nat \<Rightarrow> int \<Rightarrow> string \<Rightarrow> string" where
  "leaderboard_loop [] i currentRank lastPoints leaderboardText = leaderboardText"
| "leaderboard_loop ((member, mu) # rest) i currentRank lastPoints leaderboardText =
     (case mu of
        None \<Rightarrow> leaderboard_loop rest (i + 1) currentRank lastPoints leaderboardText
      | Some u \<Rightarrow>
          (if points member \<noteq> lastPoints
           then leaderboard_loop rest (i + 1) (i + 1) (points member)
                  (leaderboardText @ leaderboard_line (i + 1) u member)
           else leaderboard_loop rest (i + 1) currentRank lastPoints
                  (leaderboardText @ leaderboard_line currentRank u member)))"

definition leaderboard_text :: "(Member \<times> UserRecord option) list \<Rightarrow> string" where
  "leaderboard_text pms = leaderboard_loop (sort_members pms) 0 0 (- 1) leaderboard_header"

text \<open>
  The rows that the loop renders, as data: the rank, the member and its user, for each
  member that is rendered. \<open>updateLeaderboard_loop_rows\<close> below shows that the text is these
  rows, formatted.
\<close>

fun rank_rows ::
  "(Member \<times> UserRecord option) list \<Rightarrow> nat \<Rightarrow> nat \<Rightarrow> int \<Rightarrow> (nat \<times> Member \<times> UserRecord) list" where
  "rank_rows [] i currentRank lastPoints = []"
| "rank_rows ((member, None) # rest) i currentRank lastPoints =
     rank_rows rest (i + 1) currentRank lastPoints"
| "rank_rows ((member, Some u) # rest) i currentRank lastPoints =
     (let currentRank' = (if points member \<noteq> lastPoints then i + 1 else currentRank);
          lastPoints' = (if points member \<noteq> lastPoints then points member else lastPoints)
      in (currentRank', member, u) # rank_rows rest (i + 1) currentRank' lastPoints')"

definition leaderboard_rows :: "(Member \<times> UserRecord option) list \<Rightarrow> (nat \<times> Member \<times> UserRecord) list" where
  "leaderboard_rows pms = rank_rows (sort_members pms) 0 0 (- 1)"

definition render_rows :: "(nat \<times> Member \<times> UserRecord) list \<Rightarrow> string" where
  "render_rows rows = concat (map (\<lambda>(r, m, u). leaderboard_line r u m) rows)"

text \<open>
  For stating what the ranks are: a member is resolved when its user was found;
  \<open>first_rendered p\<close> is the position, in a list of populated members, of the first
  resolved member with the points \<open>p\<close> (the length of the list when there is none);
  \<open>higher_count p\<close> counts the members with more points than \<open>p\<close>.
\<close>

definition resolved :: "Member \<times> UserRecord option \<Rightarrow> bool" where
  "resolved q = (snd q \<noteq> None)"

definition first_rendered :: "int \<Rightarrow> (Member \<times> UserRecord option) list \<Rightarrow> nat" where
  "first_rendered p pms = length (takeWhile (\<lambda>q. \<not> (resolved q \<and> points (fst q) = p)) pms)"

definition higher_count :: "int \<Rightarrow> (Member \<times> UserRecord option) list \<Rightarrow> nat" where
  "higher_count p pms = length (filter (\<lambda>q. p < points (fst q)) pms)"

text \<open>
  \<open>updateLeaderboard\<close>: the result and the store afterwards. The members are populated
  and sorted in memory, so \<open>server.save()\<close> writes the whole array back: the entries in
  the sorted order, each with the reference that the populated document gives, which is
  \<open>null\<close> for a member whose user was not resolved, and the new message id.
\<close>

definition updateLeaderboard :: "Discord \<Rightarrow> DB \<Rightarrow> string \<Rightarrow> bool \<times> DB" where
  "updateLeaderboard env db gid =
     (case find_index_opt (\<lambda>s. guildId s = gid) (servers db) of
        None \<Rightarrow> (False, db)
      | Some si \<Rightarrow>
          (let server = servers db ! si
           in if members server = [] then (False, db)
              else
                (let sortedMembers = sort_members (populate (users db) (members server))
                 in case channelId server of
                      None \<Rightarrow> (False, db)
                    | Some ch \<Rightarrow>
                        if ch = [] then (False, db)
                        else if \<not> text_channel env ch then (False, db)
                        else
                          (let leaderboardText =
                                 updateLeaderboard_loop sortedMembers 0 0 (- 1) leaderboard_header;
                               send_new =
                                 (case channel_send env ch leaderboardText of
                                    None \<Rightarrow> (False, db)
                                  | Some mid \<Rightarrow>
                                      (True, db\<lparr>servers := (servers db)
                                         [si := server\<lparr>members := map depopulate sortedMembers,
                                                         messageId := Some mid\<rparr>]\<rparr>))
                           in if falsy (messageId server) then send_new
                              else (case messageId server of
                                      None \<Rightarrow> send_new
                                    | Some mid \<Rightarrow>
                                        if message_exists env ch mid
                                        then (message_edit env ch mid leaderboardText, db)
                                        else send_new)))))"

text \<open>\<open>announce\<close> reads the store and sends a message; it writes nothing.\<close>

definition announce :: "Discord \<Rightarrow> DB \<Rightarrow> string \<Rightarrow> bool" where
  "announce env db gid =
     (case find (\<lambda>s. guildId s = gid) (servers db) of
        None \<Rightarrow> False
      | Some server \<Rightarrow>
          (case daily server of
             None \<Rightarrow> False
           | Some d \<Rightarrow>
               if d = [] then False
               else (case announcementChannelId server of
                       None \<Rightarrow> False
                     | Some ch \<Rightarrow>
                         if ch = [] then False
                         else if text_channel env ch
                         then (case channel_send env ch
                                 (''New Daily Problem: https://codeforces.com/problemset/problem/'' @ d) of
                                 None \<Rightarrow> False
                               | Some mid \<Rightarrow> True)
                         else False)))"

section \<open>The judge client\<close>

text \<open>
  The first lines of \<open>hasSolvedProblem\<close>: the problem id is split at the slashes, its first
  part is parsed as a number, and a missing or empty second part or a first part that is
  no number throws, outside the \<open>try\<close> block.
\<close>

definition parse_problemId :: "string \<Rightarrow> error + (int \<times> string)" where
  "parse_problemId problemId =
     (let parts = split_on CHR ''/'' problemId
      in case (case nth_opt parts 0 of None \<Rightarrow> None | Some contestIdStr \<Rightarrow> parseInt contestIdStr) of
           None \<Rightarrow> Inl InvalidProblemId
         | Some cid \<Rightarrow>
             (case nth_opt parts 1 of
                None \<Rightarrow> Inl InvalidProblemId
              | Some ix \<Rightarrow> if ix = [] then Inl InvalidProblemId else Inr (cid, ix)))"

definition is_accepted :: "int \<Rightarrow> string \<Rightarrow> Submission \<Rightarrow> bool" where
  "is_accepted cid ix submission =
     (contestId (problem submission) = Some cid \<and> index (problem submission) = ix
        \<and> verdict submission = Some ''OK'')"

text \<open>\<open>hasSolvedProblem\<close>: \<open>Inl\<close> when it throws, \<open>Inr None\<close> when it returns \<open>null\<close>.\<close>

definition hasSolvedProblem :: "Judge \<Rightarrow> string \<Rightarrow> string \<Rightarrow> error + bool option" where
  "hasSolvedProblem judge handle problemId =
     (case parse_problemId problemId of
        Inl e \<Rightarrow> Inl e
      | Inr (cid, ix) \<Rightarrow>
          (case user_status judge handle of
             HttpError \<Rightarrow> Inr None
           | ApiResponse status submissions \<Rightarrow>
               if status = ''OK'' then Inr (Some (list_ex (is_accepted cid ix) submissions))
               else Inr None))"

definition lastcfSubmission :: "Judge \<Rightarrow> string \<Rightarrow> Submission option" where
  "lastcfSubmission judge handle =
     (case user_status_last judge handle of
        HttpError \<Rightarrow> None
      | ApiResponse status result \<Rightarrow>
          (case result of
             [] \<Rightarrow> None
           | submission # rest \<Rightarrow> if status = ''OK'' then Some submission else None))"

text \<open>\<open>`${contestId}`\<close> for a contest id that can be absent.\<close>

definition show_contestId :: "int option \<Rightarrow> string" where
  "show_contestId c = (case c of None \<Rightarrow> ''undefined'' | Some k \<Rightarrow> show_int k)"

text \<open>
  \<open>getRandomProblemUrl\<close>, with the random index as an argument. Reading the list out of
  range gives \<open>undefined\<close>, and taking that apart throws into the \<open>catch\<close> branch.
\<close>

definition getRandomProblemUrl :: "Judge \<Rightarrow> nat \<Rightarrow> (string \<times> string) option" where
  "getRandomProblemUrl judge randomIndex =
     (case problemset_problems judge of
        HttpError \<Rightarrow> None
      | ApiResponse status problems \<Rightarrow>
          if status = ''OK''
          then (case nth_opt problems randomIndex of
                  None \<Rightarrow> None
                | Some randomProblem \<Rightarrow>
                    Some (''https://codeforces.com/contest/'' @ show_contestId (contestId randomProblem)
                            @ ''/problem/'' @ index randomProblem,
                          show_contestId (contestId randomProblem) @ ''/'' @ index randomProblem))
          else None)"

text \<open>
  The test inside \<open>validateProblemUrl\<close>: \<open>problems.some(...)\<close> stops at the first match, and
  \<open>problem.contestId.toString()\<close> throws at a problem without a contest id.
\<close>

fun problems_some :: "Problem list \<Rightarrow> string \<Rightarrow> string \<Rightarrow> error + bool" where
  "problems_some [] cid ix = Inr False"
| "problems_some (p # ps) cid ix =
     (case contestId p of
        None \<Rightarrow> Inl TypeError
      | Some c \<Rightarrow> if show_int c = cid \<and> index p = ix then Inr True else problems_some ps cid ix)"

definition validateProblemUrl :: "Judge \<Rightarrow> string \<Rightarrow> string \<Rightarrow> bool" where
  "validateProblemUrl judge cid ix =
     (case problemset_problems judge of
        HttpError \<Rightarrow> False
      | ApiResponse status problems \<Rightarrow>
          if status = ''OK''
          then (case problems_some problems cid ix of Inl e \<Rightarrow> False | Inr b \<Rightarrow> b)
          else False)"

section \<open>The login flow\<close>

datatype login_reply = NoHandle | NoRandomProblem | Prompt string string

definition done_customId :: "string \<Rightarrow> string \<Rightarrow> string" where
  "done_customId handle problemId = ''done|'' @ handle @ ''|'' @ problemId"

text \<open>The login command replies with the problem's URL and a button; \<open>Prompt\<close> holds the
  URL and the button's \<open>customId\<close>.\<close>

definition login :: "Judge \<Rightarrow> nat \<Rightarrow> string option \<Rightarrow> login_reply" where
  "login judge randomIndex handle =
     (case handle of
        None \<Rightarrow> NoHandle
      | Some h \<Rightarrow>
          if h = [] then NoHandle
          else (case getRandomProblemUrl judge randomIndex of
                  None \<Rightarrow> NoRandomProblem
                | Some (url, problemId) \<Rightarrow> Prompt url (done_customId h problemId)))"

datatype button_reply =
  InvalidUsername | CouldNotRetrieve | SignedIn | DoesNotMatch | UnexpectedError | NoReply

definition fresh_oid :: "UserRecord list \<Rightarrow> nat" where
  "fresh_oid us = Suc (fold max (map user_oid us) 0)"

definition new_user :: "DB \<Rightarrow> string \<Rightarrow> string \<Rightarrow> string \<Rightarrow> UserRecord" where
  "new_user db uid handle gid =
     \<lparr>user_oid = fresh_oid (users db), user_id = uid, cfUsername = handle, user_guildId = gid\<rparr>"

text \<open>
  The test of the button handler on the latest submission. \<open>contestId.toString()\<close> throws
  when the contest id is absent; the handler's outer \<open>catch\<close> answers that.
\<close>

definition submission_matches :: "Submission \<Rightarrow> string option \<Rightarrow> string option \<Rightarrow> error + bool" where
  "submission_matches lastSubmission cid problemIndex =
     (case contestId (problem lastSubmission) of
        None \<Rightarrow> Inl TypeError
      | Some c \<Rightarrow>
          Inr (Some (show_int c) = cid \<and> Some (index (problem lastSubmission)) = problemIndex
                 \<and> verdict lastSubmission = Some ''COMPILATION_ERROR''))"

text \<open>
  The handler of a button press by the platform user \<open>uid\<close> in the guild \<open>gid\<close>.
  \<open>parts[2].split\<close> throws when the id has no third part.
\<close>

definition button_handler :: "Judge \<Rightarrow> DB \<Rightarrow> string \<Rightarrow> string \<Rightarrow> string \<Rightarrow> button_reply \<times> DB" where
  "button_handler judge db customId uid gid =
     (if startsWith customId ''done|''
      then
        (let parts = split_on CHR ''|'' customId
         in case nth_opt parts 2 of
              None \<Rightarrow> (UnexpectedError, db)
            | Some problemId \<Rightarrow>
                (let ids = split_on CHR ''/'' problemId
                 in case nth_opt parts 1 of
                      None \<Rightarrow> (InvalidUsername, db)
                    | Some handle \<Rightarrow>
                        if handle = [] then (InvalidUsername, db)
                        else
                          (case lastcfSubmission judge handle of
                             None \<Rightarrow> (CouldNotRetrieve, db)
                           | Some lastSubmission \<Rightarrow>
                               (case submission_matches lastSubmission (nth_opt ids 0) (nth_opt ids 1) of
                                  Inl e \<Rightarrow> (UnexpectedError, db)
                                | Inr ok \<Rightarrow>
                                    if ok
                                    then (SignedIn,
                                          db\<lparr>users := users db @ [new_user db uid handle gid]\<rparr>)
                                    else (DoesNotMatch, db)))))
      else (NoReply, db))"

section \<open>The check flow\<close>

datatype check_reply =
  NotLoggedIn | NoServerWithDaily | SubmissionsError | AlreadySubmitted | Congratulations
  | NotSolvedYet | CheckError

text \<open>The test of \<open>server.members.find\<close>: the member's user is resolved and has the
  caller's id.\<close>

definition is_member_of :: "UserRecord \<Rightarrow> Member \<times> UserRecord option \<Rightarrow> bool" where
  "is_member_of u m = (case snd m of None \<Rightarrow> False | Some mu \<Rightarrow> user_id mu = user_id u)"

definition solved_reply :: "bool \<Rightarrow> check_reply" where
  "solved_reply solved = (if solved then Congratulations else NotSolvedYet)"

text \<open>
  The handler of the check command for the platform user \<open>uid\<close> in the guild \<open>gid\<close>, up to
  its reply: the reply, the store, and whether the handler has started
  \<open>updateLeaderboard\<close>, which it does not wait for.
\<close>

definition check_handler :: "Judge \<Rightarrow> DB \<Rightarrow> string \<Rightarrow> string \<Rightarrow> check_reply \<times> DB \<times> bool" where
  "check_handler judge db uid gid =
     (case find (\<lambda>u. user_id u = uid) (users db) of
        None \<Rightarrow> (NotLoggedIn, db, False)
      | Some u \<Rightarrow>
          (case find_index_opt (\<lambda>s. daily s \<noteq> None \<and> guildId s = gid) (servers db) of
             None \<Rightarrow> (NoServerWithDaily, db, False)
           | Some si \<Rightarrow>
               (let server = servers db ! si
                in case daily server of
                     None \<Rightarrow> (NoServerWithDaily, db, False)
                   | Some dailyProblemId \<Rightarrow>
                       if dailyProblemId = [] then (NoServerWithDaily, db, False)
                       else
                         (case hasSolvedProblem judge (cfUsername u) dailyProblemId of
                            Inl e \<Rightarrow> (CheckError, db, False)
                          | Inr None \<Rightarrow> (SubmissionsError, db, False)
                          | Inr (Some solved) \<Rightarrow>
                              (case find_index_opt (is_member_of u)
                                      (populate (users db) (members server)) of
                                 None \<Rightarrow>
                                   (solved_reply solved,
                                    db\<lparr>servers := (servers db)
                                      [si := server\<lparr>members := members server @
                                         [\<lparr>user = Some (user_oid u),
                                           points = (if solved then 1 else 0),
                                           lastSubmitted =
                                             (if solved then Some dailyProblemId else None)\<rparr>]\<rparr>]\<rparr>,
                                    True)
                               | Some mi \<Rightarrow>
                                   (let member = members server ! mi
                                    in if lastSubmitted member = Some dailyProblemId
                                       then (AlreadySubmitted, db, True)
                                       else
                                         (solved_reply solved,
                                          db\<lparr>servers := (servers db)
                                            [si := server\<lparr>members := (members server)
                                               [mi := member\<lparr>points := points member + 1,
                                                  lastSubmitted := Some dailyProblemId\<rparr>]\<rparr>]\<rparr>,
                                          True)))))))"

text \<open>The check flow with the leaderboard refresh that the handler starts, once the
  refresh has run.\<close>

definition check_flow :: "Judge \<Rightarrow> Discord \<Rightarrow> DB \<Rightarrow> string \<Rightarrow> string \<Rightarrow> check_reply \<times> DB" where
  "check_flow judge env db uid gid =
     (case check_handler judge db uid gid of
        (reply, db', started) \<Rightarrow>
          (reply, if started then snd (updateLeaderboard env db' gid) else db'))"

section \<open>The setdailyproblem command\<close>

datatype setdaily_reply =
  NoPermission | NoUrl | InvalidUrlFormat | NotAProblem | DailySet string "string list"

definition new_server :: "string \<Rightarrow> string \<Rightarrow> ServerRecord" where
  "new_server d gid =
     \<lparr>daily = Some d, members = [], guildId = gid, channelId = None,
      announcementChannelId = None, messageId = None\<rparr>"

text \<open>
  The handler of setdailyproblem in the guild \<open>gid\<close>: \<open>manageGuild\<close> is the caller's
  permission, \<open>problemUrl\<close> the option's value. \<open>DailySet\<close> holds the URL and the warnings.
\<close>

definition setdailyproblem ::
  "Judge \<Rightarrow> Discord \<Rightarrow> DB \<Rightarrow> bool \<Rightarrow> string option \<Rightarrow> string \<Rightarrow> setdaily_reply \<times> DB" where
  "setdailyproblem judge env db manageGuild problemUrl gid =
     (if \<not> manageGuild then (NoPermission, db)
      else
        (case problemUrl of
           None \<Rightarrow> (NoUrl, db)
         | Some url \<Rightarrow>
             if url = [] then (NoUrl, db)
             else
               (case regex_match url of
                  None \<Rightarrow> (InvalidUrlFormat, db)
                | Some (cid, ix) \<Rightarrow>
                    if \<not> validateProblemUrl judge cid ix then (NotAProblem, db)
                    else
                      (let (server, db') =
                             (case find_index_opt (\<lambda>s. guildId s = gid) (servers db) of
                                None \<Rightarrow>
                                  (new_server (cid @ ''/'' @ ix) gid,
                                   db\<lparr>servers := servers db @ [new_server (cid @ ''/'' @ ix) gid]\<rparr>)
                              | Some si \<Rightarrow>
                                  ((servers db ! si)\<lparr>daily := Some (cid @ ''/'' @ ix)\<rparr>,
                                   db\<lparr>servers := (servers db)
                                     [si := (servers db ! si)\<lparr>daily := Some (cid @ ''/'' @ ix)\<rparr>]\<rparr>));
                           warnings =
                             (if falsy (announcementChannelId server)
                              then [''No announcement channel is set.''] else [])
                             @ (if falsy (channelId server)
                                then [''No leaderboard channel is set.''] else [])
                             @ (if \<not> announce env db' gid
                                then [''Failed to send announcement.''] else [])
                       in (DailySet url warnings, db')))))"

section \<open>The leaderboard command\<close>

datatype leaderboard_reply = NoDailyProblem | NoMembersYet | Leaderboard string

definition leaderboard :: "DB \<Rightarrow> string \<Rightarrow> leaderboard_reply" where
  "leaderboard db gid =
     (case find (\<lambda>s. guildId s = gid) (servers db) of
        None \<Rightarrow> NoDailyProblem
      | Some server \<Rightarrow>
          if falsy (daily server) then NoDailyProblem
          else if members server = [] then NoMembersYet
          else Leaderboard (leaderboard_text (populate (users db) (members server))))"

section \<open>What a refresh of the leaderboard keeps\<close>



section \<open>A small store, judge and platform for concrete runs\<close>

definition alice :: UserRecord where
  "alice = \<lparr>user_oid = 1, user_id = ''d1'', cfUsername = ''abc'', user_guildId = ''g''\<rparr>"

definition bob :: UserRecord where
  "bob = \<lparr>user_oid = 2, user_id = ''d2'', cfUsername = ''xyz'', user_guildId = ''g''\<rparr>"

definition carol :: UserRecord where
  "carol = \<lparr>user_oid = 3, user_id = ''d3'', cfUsername = ''pqr'', user_guildId = ''g''\<rparr>"

definition guild :: ServerRecord where
  "guild =
     \<lparr>daily = Some ''1500/A'',
      members = [\<lparr>user = Some 1, points = 5, lastSubmitted = None\<rparr>,
                 \<lparr>user = Some 7, points = 10, lastSubmitted = None\<rparr>,
                 \<lparr>user = Some 2, points = 10, lastSubmitted = Some ''1500/A''\<rparr>],
      guildId = ''g'', channelId = Some ''c'', announcementChannelId = None, messageId = None\<rparr>"

definition store :: DB where
  "store = \<lparr>users = [alice, bob, carol], servers = [guild]\<rparr>"

definition judge_up :: Judge where
  "judge_up =
     \<lparr>user_status = (\<lambda>h. ApiResponse ''OK''
        (if h = ''abc'' then []
         else [\<lparr>problem = \<lparr>contestId = Some 1500, index = ''A''\<rparr>, verdict = Some ''OK''\<rparr>])),
      user_status_last = (\<lambda>h.
        if h = ''abc''
        then ApiResponse ''OK''
          [\<lparr>problem = \<lparr>contestId = Some 100, index = ''A''\<rparr>, verdict = Some ''COMPILATION_ERROR''\<rparr>]
        else ApiResponse ''FAILED'' []),
      problemset_problems = ApiResponse ''OK'' [\<lparr>contestId = Some 1500, index = ''A''\<rparr>]\<rparr>"

definition judge_down :: Judge where
  "judge_down =
     \<lparr>user_status = (\<lambda>h. HttpError), user_status_last = (\<lambda>h. HttpError),
      problemset_problems = HttpError\<rparr>"

definition platform :: Discord where
  "platform =
     \<lparr>text_channel = (\<lambda>c. True), channel_send = (\<lambda>c t. Some ''m1''),
      message_exists = (\<lambda>c m. False), message_edit = (\<lambda>c m t. True)\<rparr>"

section \<open>Notions used in the statements\<close>

text \<open>A request to the judge has failed: an HTTP error, or a status other than OK.\<close>

definition fetch_failed :: "'a api_response \<Rightarrow> bool" where
  "fetch_failed r = (case r of HttpError \<Rightarrow> True | ApiResponse status result \<Rightarrow> status \<noteq> ''OK'')"

text \<open>
  The gate of the login confirmation in the words of the specification: a latest
  submission was fetched, its problem has the contest id and the index of the encoded
  problem id, and its verdict is COMPILATION_ERROR.
\<close>

definition latest_submission_confirms :: "Submission option \<Rightarrow> string \<Rightarrow> string \<Rightarrow> bool" where
  "latest_submission_confirms fetched cid ix =
     (case fetched of
        None \<Rightarrow> False
      | Some s \<Rightarrow>
          (case contestId (problem s) of None \<Rightarrow> False | Some c \<Rightarrow> show_int c = cid)
          \<and> index (problem s) = ix \<and> verdict s = Some ''COMPILATION_ERROR'')"

text \<open>
  The invariant of the rendering loop after the members \<open>pre\<close>: either no member was
  rendered and \<open>lastPoints\<close> is still \<open>-1\<close>, or \<open>lastPoints\<close> is the points of a rendered
  member, \<open>currentRank\<close> is one more than the position of the first rendered member with
  these points, and every rendered member has at least these points.
\<close>

definition ranked_so_far :: "(Member \<times> UserRecord option) list \<Rightarrow> nat \<Rightarrow> int \<Rightarrow> bool" where
  "ranked_so_far pre cr lp =
     ((\<not> list_ex resolved pre \<and> lp = - 1)
      \<or> (list_ex (\<lambda>q. resolved q \<and> points (fst q) = lp) pre
           \<and> cr = 1 + first_rendered lp pre
           \<and> list_all (\<lambda>q. \<not> resolved q \<or> lp \<le> points (fst q)) pre))"

section \<open>Lists, strings and the store\<close>

lemma find_index_opt_Some:
  "find_index_opt P xs = Some i \<Longrightarrow> i < length xs \<and> P (xs ! i)"
proof (induction xs arbitrary: i)
  case Nil
  then show ?case by simp
next
  case (Cons x xs)
  then show ?case by (auto split: if_splits)
qed





lemma split_on_notin: "c \<notin> set xs \<Longrightarrow> split_on c xs = [xs]"
  by (induction xs) auto

lemma split_on_append:
  "c \<notin> set xs \<Longrightarrow> split_on c (xs @ c # ys) = xs # split_on c ys"
  by (induction xs) auto

lemma split_customId:
  assumes "CHR ''|'' \<notin> set handle" and "CHR ''|'' \<notin> set problemId"
  shows "split_on CHR ''|'' (done_customId handle problemId) = [''done'', handle, problemId]"
  using assms by (simp add: done_customId_def split_on_append split_on_notin)

lemma split_problemId:
  assumes "CHR ''/'' \<notin> set cid" and "CHR ''/'' \<notin> set ix"
  shows "split_on CHR ''/'' (cid @ ''/'' @ ix) = [cid, ix]"
  using assms by (simp add: split_on_append split_on_notin)

section \<open>The rendering loops\<close>

lemma leaderboard_loop_eq:
  "leaderboard_loop xs i cr lp t = updateLeaderboard_loop xs i cr lp t"
proof (induction xs arbitrary: i cr lp t)
  case Nil
  show ?case by simp
next
  case (Cons x xs)
  obtain m mu where x: "x = (m, mu)" by (cases x)
  show ?case
  proof (cases mu)
    case None
    with x Cons.IH show ?thesis by simp
  next
    case (Some u)
    with x Cons.IH show ?thesis by (simp add: Let_def)
  qed
qed

lemma updateLeaderboard_loop_rows:
  "updateLeaderboard_loop xs i cr lp t = t @ render_rows (rank_rows xs i cr lp)"
proof (induction xs i cr lp arbitrary: t rule: rank_rows.induct)
  case (1 i cr lp)
  show ?case by (simp add: render_rows_def)
next
  case (2 m rest i cr lp)
  then show ?case by simp
next
  case (3 m u rest i cr lp)
  then show ?case by (simp add: Let_def render_rows_def)
qed

lemma rank_rows_members:
  "map (\<lambda>(r, m, u). (m, Some u)) (rank_rows xs i cr lp) = filter resolved xs"
  by (induction xs i cr lp rule: rank_rows.induct) (simp_all add: resolved_def Let_def)

lemma first_rendered_in:
  "\<exists>q\<in>set pre. resolved q \<and> points (fst q) = p \<Longrightarrow>
     first_rendered p (pre @ ys) = first_rendered p pre"
  by (auto simp: first_rendered_def)

lemma first_rendered_notin:
  "\<forall>q\<in>set pre. \<not> (resolved q \<and> points (fst q) = p) \<Longrightarrow>
     first_rendered p (pre @ ys) = length pre + first_rendered p ys"
  by (simp add: first_rendered_def)

lemma first_rendered_hd:
  "first_rendered (points m) ((m, Some u) # ys) = 0"
  by (simp add: first_rendered_def resolved_def)

lemma rank_rows_positions:
  assumes "sorted (map (\<lambda>q. - points (fst q)) (pre @ xs))"
    and "\<forall>q\<in>set xs. 0 \<le> points (fst q)"
    and "ranked_so_far pre cr lp"
  shows "map fst (rank_rows xs (length pre) cr lp)
     = map (\<lambda>q. 1 + first_rendered (points (fst q)) (pre @ xs)) (filter resolved xs)"
  using assms
proof (induction xs arbitrary: pre cr lp)
  case Nil
  show ?case by simp
next
  case (Cons x xs)
  obtain m mu where x: "x = (m, mu)" by (cases x)
  have sorted': "sorted (map (\<lambda>q. - points (fst q)) ((pre @ [x]) @ xs))"
    using Cons.prems(1) by simp
  have nonneg': "\<forall>q\<in>set xs. 0 \<le> points (fst q)"
    using Cons.prems(2) by simp
  have above: "\<forall>q\<in>set pre. points m \<le> points (fst q)"
    using Cons.prems(1) x by (auto simp: sorted_append)
  show ?case
  proof (cases mu)
    case None
    have nx: "\<not> resolved x" using x None by (simp add: resolved_def)
    have inv': "ranked_so_far (pre @ [x]) cr lp"
    proof (cases "list_ex resolved pre")
      case True
      with Cons.prems(3) have ex: "list_ex (\<lambda>q. resolved q \<and> points (fst q) = lp) pre"
        and cr: "cr = 1 + first_rendered lp pre"
        and all: "list_all (\<lambda>q. \<not> resolved q \<or> lp \<le> points (fst q)) pre"
        by (auto simp: ranked_so_far_def)
      from ex have "first_rendered lp (pre @ [x]) = first_rendered lp pre"
        by (intro first_rendered_in) (simp add: list_ex_iff)
      with ex cr all nx show ?thesis by (simp add: ranked_so_far_def)
    next
      case False
      with Cons.prems(3) have "lp = - 1"
        by (auto simp: ranked_so_far_def list_ex_iff)
      with False nx show ?thesis by (simp add: ranked_so_far_def)
    qed
    have "map fst (rank_rows (x # xs) (length pre) cr lp)
        = map fst (rank_rows xs (length (pre @ [x])) cr lp)"
      using x None by simp
    also have "\<dots> = map (\<lambda>q. 1 + first_rendered (points (fst q)) ((pre @ [x]) @ xs)) (filter resolved xs)"
      by (rule Cons.IH[OF sorted' nonneg' inv'])
    finally show ?thesis using nx by simp
  next
    case (Some u)
    have pm: "0 \<le> points m" using Cons.prems(2) x by simp
    define cr' where "cr' = (if points m \<noteq> lp then length pre + 1 else cr)"
    define lp' where "lp' = (if points m \<noteq> lp then points m else lp)"
    have lp': "lp' = points m" by (simp add: lp'_def)
    have rx: "resolved x" using x Some by (simp add: resolved_def)
    have head: "cr' = 1 + first_rendered (points m) (pre @ x # xs)"
    proof (cases "points m = lp")
      case True
      with pm have "lp \<noteq> - 1" by simp
      with Cons.prems(3) have ex: "\<exists>q\<in>set pre. resolved q \<and> points (fst q) = lp"
        and cr: "cr = 1 + first_rendered lp pre"
        by (auto simp: ranked_so_far_def list_ex_iff)
      from ex have "first_rendered lp (pre @ x # xs) = first_rendered lp pre"
        by (rule first_rendered_in)
      with cr True show ?thesis by (simp add: cr'_def)
    next
      case False
      have none: "\<forall>q\<in>set pre. \<not> (resolved q \<and> points (fst q) = points m)"
      proof (cases "list_ex resolved pre")
        case True
        with Cons.prems(3) obtain q0 where q0: "q0 \<in> set pre" "points (fst q0) = lp"
          and all: "\<forall>q\<in>set pre. resolved q \<longrightarrow> lp \<le> points (fst q)"
          by (auto simp: ranked_so_far_def list_ex_iff list_all_iff)
        from above q0 have "points m \<le> lp" by auto
        with False have "points m < lp" by simp
        with all show ?thesis by fastforce
      next
        case False
        then show ?thesis by (auto simp: list_ex_iff)
      qed
      have "first_rendered (points m) (pre @ x # xs) = length pre + first_rendered (points m) (x # xs)"
        using none by (rule first_rendered_notin)
      with x Some False show ?thesis by (simp add: cr'_def first_rendered_hd)
    qed
    have inv': "ranked_so_far (pre @ [x]) cr' lp'"
    proof -
      have a: "list_ex resolved (pre @ [x])" using rx by (simp add: list_ex_iff)
      have b: "list_ex (\<lambda>q. resolved q \<and> points (fst q) = lp') (pre @ [x])"
        using rx x lp' by (simp add: list_ex_iff)
      have "first_rendered (points m) (pre @ x # xs) = first_rendered (points m) (pre @ [x])"
        using rx x first_rendered_in[of "pre @ [x]" "points m" xs] by simp
      with head have c: "cr' = 1 + first_rendered lp' (pre @ [x])" by (simp add: lp')
      have d: "list_all (\<lambda>q. \<not> resolved q \<or> lp' \<le> points (fst q)) (pre @ [x])"
        using above x lp' by (auto simp: list_all_iff)
      from a b c d show ?thesis by (simp add: ranked_so_far_def)
    qed
    have "map fst (rank_rows (x # xs) (length pre) cr lp)
        = cr' # map fst (rank_rows xs (length (pre @ [x])) cr' lp')"
      using x Some by (simp add: Let_def cr'_def lp'_def)
    also have "map fst (rank_rows xs (length (pre @ [x])) cr' lp')
         = map (\<lambda>q. 1 + first_rendered (points (fst q)) ((pre @ [x]) @ xs)) (filter resolved xs)"
      by (rule Cons.IH[OF sorted' nonneg' inv'])
    finally show ?thesis using head rx x by simp
  qed
qed

lemma first_rendered_higher:
  assumes "sorted (map (\<lambda>q. - points (fst q)) s)"
    and "\<forall>q\<in>set s. resolved q"
    and "\<exists>q\<in>set s. points (fst q) = p"
  shows "first_rendered p s = higher_count p s"
  using assms
proof (induction s)
  case Nil
  then show ?case by simp
next
  case (Cons x xs)
  show ?case
  proof (cases "points (fst x) = p")
    case True
    have "\<forall>q\<in>set xs. points (fst q) \<le> p"
      using Cons.prems(1) True by auto
    then have "filter (\<lambda>q. p < points (fst q)) xs = []"
      by (auto simp: filter_empty_conv)
    with True Cons.prems(2) show ?thesis
      by (simp add: first_rendered_def higher_count_def)
  next
    case False
    with Cons.prems(3) obtain q where q: "q \<in> set xs" "points (fst q) = p" by auto
    with Cons.prems(1) have "p \<le> points (fst x)" by auto
    with False have lt: "p < points (fst x)" by simp
    have "first_rendered p xs = higher_count p xs"
      using Cons.IH Cons.prems q by auto
    with lt False show ?thesis
      by (simp add: first_rendered_def higher_count_def)
  qed
qed

lemma higher_count_sort_members: "higher_count p (sort_members pms) = higher_count p pms"
proof -
  have "mset (filter (\<lambda>q. p < points (fst q)) (sort_members pms))
      = mset (filter (\<lambda>q. p < points (fst q)) pms)"
    by (simp add: sort_members_def)
  from mset_eq_length[OF this] show ?thesis by (simp add: higher_count_def)
qed

lemma leaderboard_rows_positions:
  assumes "\<forall>q\<in>set pms. 0 \<le> points (fst q)"
  shows "map fst (leaderboard_rows pms)
     = map (\<lambda>q. 1 + first_rendered (points (fst q)) (sort_members pms))
         (filter resolved (sort_members pms))"
proof -
  have s: "sorted (map (\<lambda>q. - points (fst q)) ([] @ sort_members pms))"
    by (simp add: sort_members_def)
  have n: "\<forall>q\<in>set (sort_members pms). 0 \<le> points (fst q)"
    using assms by (simp add: sort_members_def)
  have i: "ranked_so_far [] 0 (- 1)"
    by (simp add: ranked_so_far_def)
  from rank_rows_positions[OF s n i] show ?thesis
    by (simp add: leaderboard_rows_def)
qed

section \<open>The handlers unfolded\<close>


lemma check_handler_found:
  assumes "find (\<lambda>u. user_id u = uid) (users db) = Some u"
    and "find_index_opt (\<lambda>s. daily s \<noteq> None \<and> guildId s = gid) (servers db) = Some si"
    and "daily (servers db ! si) = Some d" and "d \<noteq> []"
    and "hasSolvedProblem judge (cfUsername u) d = Inr (Some solved)"
  shows "check_handler judge db uid gid =
     (case find_index_opt (is_member_of u) (populate (users db) (members (servers db ! si))) of
        None \<Rightarrow>
          (solved_reply solved,
           db\<lparr>servers := (servers db)
             [si := (servers db ! si)\<lparr>members := members (servers db ! si) @
                [\<lparr>user = Some (user_oid u), points = (if solved then 1 else 0),
                  lastSubmitted = (if solved then Some d else None)\<rparr>]\<rparr>]\<rparr>,
           True)
      | Some mi \<Rightarrow>
          if lastSubmitted (members (servers db ! si) ! mi) = Some d
          then (AlreadySubmitted, db, True)
          else
            (solved_reply solved,
             db\<lparr>servers := (servers db)
               [si := (servers db ! si)\<lparr>members := (members (servers db ! si))
                  [mi := (members (servers db ! si) ! mi)\<lparr>points := points (members (servers db ! si) ! mi) + 1,
                     lastSubmitted := Some d\<rparr>]\<rparr>]\<rparr>,
             True))"
  using assms by (simp add: check_handler_def Let_def split: option.splits)


lemma button_handler_done:
  assumes "handle \<noteq> []"
    and "CHR ''|'' \<notin> set handle" and "CHR ''|'' \<notin> set cid" and "CHR ''|'' \<notin> set ix"
    and "CHR ''/'' \<notin> set cid" and "CHR ''/'' \<notin> set ix"
  shows "button_handler judge db (done_customId handle (cid @ ''/'' @ ix)) uid gid =
     (case lastcfSubmission judge handle of
        None \<Rightarrow> (CouldNotRetrieve, db)
      | Some lastSubmission \<Rightarrow>
          (case submission_matches lastSubmission (Some cid) (Some ix) of
             Inl e \<Rightarrow> (UnexpectedError, db)
           | Inr ok \<Rightarrow>
               if ok then (SignedIn, db\<lparr>users := users db @ [new_user db uid handle gid]\<rparr>)
               else (DoesNotMatch, db)))"
proof -
  define pid where "pid = cid @ ''/'' @ ix"
  have p: "CHR ''|'' \<notin> set pid" using assms(3,4) by (simp add: pid_def)
  have parts: "split_on CHR ''|'' (done_customId handle pid) = [''done'', handle, pid]"
    using assms(2) p by (rule split_customId)
  have ids: "split_on CHR ''/'' pid = [cid, ix]"
    unfolding pid_def using assms(5,6) by (rule split_problemId)
  have s: "startsWith (done_customId handle pid) ''done|''"
    by (simp add: startsWith_def done_customId_def)
  have "button_handler judge db (done_customId handle pid) uid gid =
     (case lastcfSubmission judge handle of
        None \<Rightarrow> (CouldNotRetrieve, db)
      | Some lastSubmission \<Rightarrow>
          (case submission_matches lastSubmission (Some cid) (Some ix) of
             Inl e \<Rightarrow> (UnexpectedError, db)
           | Inr ok \<Rightarrow>
               if ok then (SignedIn, db\<lparr>users := users db @ [new_user db uid handle gid]\<rparr>)
               else (DoesNotMatch, db)))"
    using assms(1) s by (simp add: button_handler_def parts ids numeral_2_eq_2 Let_def cong: option.case_cong)
  then show ?thesis by (simp only: pid_def)
qed

text \<open>
  A refresh in the example store: the member whose user is not resolved comes first after
  the sort and is stored without its reference.
\<close>

lemma updateLeaderboard_example:
  "updateLeaderboard platform store ''g'' =
     (True, store\<lparr>servers := [guild\<lparr>members :=
        [\<lparr>user = None, points = 10, lastSubmitted = None\<rparr>,
         \<lparr>user = Some 2, points = 10, lastSubmitted = Some ''1500/A''\<rparr>,
         \<lparr>user = Some 1, points = 5, lastSubmitted = None\<rparr>],
        messageId := Some ''m1''\<rparr>]\<rparr>)"
  by (simp add: updateLeaderboard_def store_def guild_def platform_def falsy_def populate_def
      sort_members_def depopulate_def alice_def bob_def carol_def)

lemma parse_problemId_1500_A: "parse_problemId ''1500/A'' = Inr (1500, ''A'')"
  by (simp add: parse_problemId_def parseInt_def is_digit_def is_space_def digits_val_def digit_val_def)

section \<open>Theorems\<close>

text \<open>
  C1 (as the code has it). The claim says that setdailyproblem accepts the URL
  \<^verbatim>\<open>https://codeforces.com/contest/1500/problem/A\<close> with contest id 1500 and index A. The
  pattern of the handler asks for \<^verbatim>\<open>/contest/problem/\<close> or \<^verbatim>\<open>/problemset/problem/\<close> before
  the contest id, so the handler finds no match in this URL and replies that the format is
  invalid, with the store as it was, whoever calls and whatever the judge answers.
\<close>

theorem setdailyproblem_contest_url_rejected:
  "regex_match ''https://codeforces.com/contest/1500/problem/A'' = None
   \<and> setdailyproblem judge env db True (Some ''https://codeforces.com/contest/1500/problem/A'') gid
       = (InvalidUrlFormat, db)"
  by (simp add: setdailyproblem_def match_here_def match_tail_def)

text \<open>The other URL of the claim is rejected before any write, as the claim says.\<close>

lemma setdailyproblem_foreign_url_rejected:
  "setdailyproblem judge env db True (Some ''https://example.com/foo'') gid = (InvalidUrlFormat, db)"
  by (simp add: setdailyproblem_def match_here_def match_tail_def)

text \<open>
  C2 (counterexample). In the example store the guild has the members alice (5 points),
  a member whose user is not found (10 points) and bob (10 points). The claim gives bob
  the rank 1 and alice the rank 2, as for the list without the unresolved member; the
  leaderboard command renders bob with the rank 2 and alice with the rank 3.
\<close>

theorem leaderboard_ranks_counterexample:
  "map fst (leaderboard_rows (populate (users store) (members guild))) = [2, 3]
   \<and> map fst (leaderboard_rows (populate (users store) [members guild ! 0, members guild ! 2])) = [1, 2]
   \<and> resolved (populate (users store) (members guild) ! 0)
   \<and> \<not> resolved (populate (users store) (members guild) ! 1)
   \<and> resolved (populate (users store) (members guild) ! 2)
   \<and> leaderboard store ''g'' = Leaderboard (leaderboard_header
        @ ''2. <@d2> - 10 point(s)'' @ [CHR 0x0A] @ ''3. <@d1> - 5 point(s)'' @ [CHR 0x0A])"
  by (simp add: leaderboard_rows_def sort_members_def populate_def store_def guild_def alice_def
      bob_def carol_def resolved_def leaderboard_def falsy_def leaderboard_text_def
      leaderboard_line_def show_int_def show_nat.simps digit_char_def)

text \<open>
  C2 (amended). For every member list with non-negative points, both renderings (of
  updateLeaderboard and of the leaderboard command) are the header followed by one line
  for each row of \<open>leaderboard_rows\<close>; the rows are the resolved members in the sorted order,
  so every unresolved member is skipped; the rank of a row is one more than the position,
  in the sorted list of all members, skipped ones included, of the first resolved member
  with the same points; and when every member is resolved, the rank is one more than the
  number of members with strictly more points.
\<close>

theorem leaderboard_ranks:
  assumes "\<forall>q\<in>set pms. 0 \<le> points (fst q)"
  shows "map (\<lambda>(r, m, u). (m, Some u)) (leaderboard_rows pms) = filter resolved (sort_members pms)
   \<and> map fst (leaderboard_rows pms)
       = map (\<lambda>q. 1 + first_rendered (points (fst q)) (sort_members pms))
           (filter resolved (sort_members pms))
   \<and> ((\<forall>q\<in>set pms. resolved q) \<longrightarrow>
        map fst (leaderboard_rows pms)
          = map (\<lambda>q. 1 + higher_count (points (fst q)) pms) (sort_members pms))
   \<and> updateLeaderboard_text pms = leaderboard_header @ render_rows (leaderboard_rows pms)
   \<and> leaderboard_text pms = leaderboard_header @ render_rows (leaderboard_rows pms)"
proof -
  have a: "map (\<lambda>(r, m, u). (m, Some u)) (leaderboard_rows pms) = filter resolved (sort_members pms)"
    by (simp add: leaderboard_rows_def rank_rows_members)
  note b = leaderboard_rows_positions[OF assms]
  have c: "map fst (leaderboard_rows pms)
          = map (\<lambda>q. 1 + higher_count (points (fst q)) pms) (sort_members pms)"
    if all: "\<forall>q\<in>set pms. resolved q"
  proof -
    have all': "\<forall>q\<in>set (sort_members pms). resolved q"
      using all by (simp add: sort_members_def)
    then have f: "filter resolved (sort_members pms) = sort_members pms"
      by simp
    have s: "sorted (map (\<lambda>q. - points (fst q)) (sort_members pms))"
      by (simp add: sort_members_def)
    have "first_rendered (points (fst q)) (sort_members pms) = higher_count (points (fst q)) pms"
      if "q \<in> set (sort_members pms)" for q
      using first_rendered_higher[OF s all', of "points (fst q)"] that
      by (auto simp: higher_count_sort_members)
    with b f show ?thesis by simp
  qed
  have d: "updateLeaderboard_text pms = leaderboard_header @ render_rows (leaderboard_rows pms)"
    by (simp add: updateLeaderboard_text_def leaderboard_rows_def updateLeaderboard_loop_rows)
  have e: "leaderboard_text pms = leaderboard_header @ render_rows (leaderboard_rows pms)"
    by (simp add: leaderboard_text_def leaderboard_rows_def leaderboard_loop_eq updateLeaderboard_loop_rows)
  from a b c d e show ?thesis by blast
qed

text \<open>
  The theorem at the members of the example guild, where the second member is not
  resolved, and at the two resolved members alone.
\<close>

theorem leaderboard_ranks_witness:
  "list_all (\<lambda>q. 0 \<le> points (fst q)) (populate (users store) (members guild))
   \<and> map fst (leaderboard_rows (populate (users store) (members guild)))
       = map (\<lambda>q. 1 + first_rendered (points (fst q))
                (sort_members (populate (users store) (members guild))))
           (filter resolved (sort_members (populate (users store) (members guild))))
   \<and> map (\<lambda>q. 1 + first_rendered (points (fst q))
                (sort_members (populate (users store) (members guild))))
           (filter resolved (sort_members (populate (users store) (members guild)))) = [2, 3]
   \<and> list_all resolved (populate (users store) [members guild ! 0, members guild ! 2])
   \<and> map fst (leaderboard_rows (populate (users store) [members guild ! 0, members guild ! 2]))
       = map (\<lambda>q. 1 + higher_count (points (fst q))
                (populate (users store) [members guild ! 0, members guild ! 2]))
           (sort_members (populate (users store) [members guild ! 0, members guild ! 2]))
   \<and> map (\<lambda>q. 1 + higher_count (points (fst q))
                (populate (users store) [members guild ! 0, members guild ! 2]))
           (sort_members (populate (users store) [members guild ! 0, members guild ! 2])) = [1, 2]"
proof -
  have h1: "\<forall>q\<in>set (populate (users store) (members guild)). 0 \<le> points (fst q)"
    by (simp add: populate_def guild_def)
  have h2: "\<forall>q\<in>set (populate (users store) [members guild ! 0, members guild ! 2]).
              0 \<le> points (fst q)"
    by (simp add: populate_def guild_def)
  have h3: "\<forall>q\<in>set (populate (users store) [members guild ! 0, members guild ! 2]). resolved q"
    by (simp add: populate_def guild_def store_def alice_def bob_def carol_def resolved_def)
  have v1: "map (\<lambda>q. 1 + first_rendered (points (fst q))
                (sort_members (populate (users store) (members guild))))
           (filter resolved (sort_members (populate (users store) (members guild)))) = [2, 3]"
    by (simp add: populate_def guild_def store_def alice_def bob_def carol_def resolved_def
        sort_members_def first_rendered_def)
  have v2: "map (\<lambda>q. 1 + higher_count (points (fst q))
                (populate (users store) [members guild ! 0, members guild ! 2]))
           (sort_members (populate (users store) [members guild ! 0, members guild ! 2])) = [1, 2]"
    by (simp add: populate_def guild_def store_def alice_def bob_def carol_def
        sort_members_def higher_count_def)
  from leaderboard_ranks[OF h1] leaderboard_ranks[OF h2] h1 h3 v1 v2
  show ?thesis unfolding list_all_iff by blast
qed

text \<open>
  C3. In the check flow, for a caller who is logged in, in a guild with a daily problem,
  when the judge has answered whether the problem is solved: if no member entry is the
  caller's, an entry is appended with 1 point and the daily problem as last submitted
  when solved, and with 0 points and no last submitted otherwise; if the caller's entry
  is there and its last submitted differs from the daily problem, its points grow by
  exactly 1 and its last submitted becomes the daily problem, solved or not.
\<close>

theorem check_updates_points:
  assumes "find (\<lambda>u. user_id u = uid) (users db) = Some u"
    and "find_index_opt (\<lambda>s. daily s \<noteq> None \<and> guildId s = gid) (servers db) = Some si"
    and "daily (servers db ! si) = Some d" and "d \<noteq> []"
    and "hasSolvedProblem judge (cfUsername u) d = Inr (Some solved)"
  shows "(find_index_opt (is_member_of u) (populate (users db) (members (servers db ! si))) = None
      \<longrightarrow> check_handler judge db uid gid =
           (solved_reply solved,
            db\<lparr>servers := (servers db)
             [si := (servers db ! si)\<lparr>members := members (servers db ! si) @
                [\<lparr>user = Some (user_oid u), points = (if solved then 1 else 0),
                  lastSubmitted = (if solved then Some d else None)\<rparr>]\<rparr>]\<rparr>,
            True))
   \<and> (\<forall>mi. find_index_opt (is_member_of u) (populate (users db) (members (servers db ! si))) = Some mi
        \<and> lastSubmitted (members (servers db ! si) ! mi) \<noteq> Some d
      \<longrightarrow> check_handler judge db uid gid =
           (solved_reply solved,
            db\<lparr>servers := (servers db)
               [si := (servers db ! si)\<lparr>members := (members (servers db ! si))
                  [mi := (members (servers db ! si) ! mi)\<lparr>points := points (members (servers db ! si) ! mi) + 1,
                     lastSubmitted := Some d\<rparr>]\<rparr>]\<rparr>,
            True))"
  using check_handler_found[OF assms] by simp

text \<open>
  The theorem at alice, who has an entry and has not solved the problem, and at carol, who
  has no entry and has solved it.
\<close>

theorem check_updates_points_witness:
  "hasSolvedProblem judge_up (cfUsername alice) ''1500/A'' = Inr (Some False)
   \<and> check_handler judge_up store ''d1'' ''g'' =
     (NotSolvedYet,
      store\<lparr>servers := [guild\<lparr>members :=
        [\<lparr>user = Some 1, points = 6, lastSubmitted = Some ''1500/A''\<rparr>,
         \<lparr>user = Some 7, points = 10, lastSubmitted = None\<rparr>,
         \<lparr>user = Some 2, points = 10, lastSubmitted = Some ''1500/A''\<rparr>]\<rparr>]\<rparr>, True)
   \<and> hasSolvedProblem judge_up (cfUsername carol) ''1500/A'' = Inr (Some True)
   \<and> check_handler judge_up store ''d3'' ''g'' =
     (Congratulations,
      store\<lparr>servers := [guild\<lparr>members :=
        [\<lparr>user = Some 1, points = 5, lastSubmitted = None\<rparr>,
         \<lparr>user = Some 7, points = 10, lastSubmitted = None\<rparr>,
         \<lparr>user = Some 2, points = 10, lastSubmitted = Some ''1500/A''\<rparr>,
         \<lparr>user = Some 3, points = 1, lastSubmitted = Some ''1500/A''\<rparr>]\<rparr>]\<rparr>, True)"
proof -
  have s: "find_index_opt (\<lambda>s. daily s \<noteq> None \<and> guildId s = ''g'') (servers store) = Some 0"
    by (simp add: store_def guild_def)
  have d: "daily (servers store ! 0) = Some ''1500/A''"
    by (simp add: store_def guild_def)
  have n: "''1500/A'' \<noteq> []" by simp
  have a1: "find (\<lambda>u. user_id u = ''d1'') (users store) = Some alice"
    by (simp add: store_def alice_def)
  have a2: "hasSolvedProblem judge_up (cfUsername alice) ''1500/A'' = Inr (Some False)"
    by (simp add: hasSolvedProblem_def parse_problemId_1500_A judge_up_def alice_def)
  have a3: "find_index_opt (is_member_of alice) (populate (users store) (members (servers store ! 0))) = Some 0"
    by (simp add: store_def guild_def populate_def is_member_of_def alice_def bob_def carol_def)
  have a4: "lastSubmitted (members (servers store ! 0) ! 0) \<noteq> Some ''1500/A''"
    by (simp add: store_def guild_def)
  have c1: "find (\<lambda>u. user_id u = ''d3'') (users store) = Some carol"
    by (simp add: store_def alice_def bob_def carol_def)
  have c2: "hasSolvedProblem judge_up (cfUsername carol) ''1500/A'' = Inr (Some True)"
    by (simp add: hasSolvedProblem_def parse_problemId_1500_A judge_up_def carol_def is_accepted_def)
  have c3: "find_index_opt (is_member_of carol) (populate (users store) (members (servers store ! 0))) = None"
    by (simp add: store_def guild_def populate_def is_member_of_def alice_def bob_def carol_def)
  from check_updates_points[OF a1 s d n a2] a3 a4
  have r1: "check_handler judge_up store ''d1'' ''g'' =
           (solved_reply False,
            store\<lparr>servers := (servers store)
               [0 := (servers store ! 0)\<lparr>members := (members (servers store ! 0))
                  [0 := (members (servers store ! 0) ! 0)\<lparr>points := points (members (servers store ! 0) ! 0) + 1,
                     lastSubmitted := Some ''1500/A''\<rparr>]\<rparr>]\<rparr>,
            True)"
    by blast
  from check_updates_points[OF c1 s d n c2] c3
  have r2: "check_handler judge_up store ''d3'' ''g'' =
           (solved_reply True,
            store\<lparr>servers := (servers store)
             [0 := (servers store ! 0)\<lparr>members := members (servers store ! 0) @
                [\<lparr>user = Some (user_oid carol), points = (if True then 1 else 0),
                  lastSubmitted = (if True then Some ''1500/A'' else None)\<rparr>]\<rparr>]\<rparr>,
            True)"
    by blast
  have e1: "check_handler judge_up store ''d1'' ''g'' =
     (NotSolvedYet,
      store\<lparr>servers := [guild\<lparr>members :=
        [\<lparr>user = Some 1, points = 6, lastSubmitted = Some ''1500/A''\<rparr>,
         \<lparr>user = Some 7, points = 10, lastSubmitted = None\<rparr>,
         \<lparr>user = Some 2, points = 10, lastSubmitted = Some ''1500/A''\<rparr>]\<rparr>]\<rparr>, True)"
    unfolding r1 by (simp add: store_def guild_def solved_reply_def)
  have e2: "check_handler judge_up store ''d3'' ''g'' =
     (Congratulations,
      store\<lparr>servers := [guild\<lparr>members :=
        [\<lparr>user = Some 1, points = 5, lastSubmitted = None\<rparr>,
         \<lparr>user = Some 7, points = 10, lastSubmitted = None\<rparr>,
         \<lparr>user = Some 2, points = 10, lastSubmitted = Some ''1500/A''\<rparr>,
         \<lparr>user = Some 3, points = 1, lastSubmitted = Some ''1500/A''\<rparr>]\<rparr>]\<rparr>, True)"
    unfolding r2 by (simp add: store_def guild_def carol_def solved_reply_def)
  from a2 e1 c2 e2 show ?thesis by blast
qed




text \<open>
  The gate of the login confirmation for a handle without separators. A press of the
  button that encodes such a handle and a problem id \<open>cid/ix\<close> creates a user record
  exactly when a latest submission of that handle was fetched and it has the contest id
  \<open>cid\<close>, the index \<open>ix\<close> and the verdict COMPILATION_ERROR. Otherwise the store is as it
  was and the reply is a rejection: the one for a failed fetch when no submission was
  fetched, else the one for a mismatch, or the error reply when the submission has no
  contest id.
\<close>

lemma login_gate_plain_handle:
  assumes "handle \<noteq> []"
    and "CHR ''|'' \<notin> set handle" and "CHR ''|'' \<notin> set cid" and "CHR ''|'' \<notin> set ix"
    and "CHR ''/'' \<notin> set cid" and "CHR ''/'' \<notin> set ix"
  shows "(latest_submission_confirms (lastcfSubmission judge handle) cid ix \<longrightarrow>
           button_handler judge db (done_customId handle (cid @ ''/'' @ ix)) uid gid
             = (SignedIn, db\<lparr>users := users db @ [new_user db uid handle gid]\<rparr>))
   \<and> (\<not> latest_submission_confirms (lastcfSubmission judge handle) cid ix \<longrightarrow>
           snd (button_handler judge db (done_customId handle (cid @ ''/'' @ ix)) uid gid) = db
           \<and> fst (button_handler judge db (done_customId handle (cid @ ''/'' @ ix)) uid gid)
               \<in> {CouldNotRetrieve, DoesNotMatch, UnexpectedError})
   \<and> (lastcfSubmission judge handle = None \<longrightarrow>
           button_handler judge db (done_customId handle (cid @ ''/'' @ ix)) uid gid
             = (CouldNotRetrieve, db))
   \<and> (users (snd (button_handler judge db (done_customId handle (cid @ ''/'' @ ix)) uid gid))
         \<noteq> users db)
       = latest_submission_confirms (lastcfSubmission judge handle) cid ix"
  unfolding button_handler_done[OF assms]
  by (auto simp: latest_submission_confirms_def submission_matches_def
      split: option.splits sum.splits)

text \<open>
  The lemma at the handle abc: with the problem 100/A, which the latest submission
  matches; with the problem 101/A, which it does not; and with a judge that fails.
\<close>

lemma login_gate_plain_handle_abc:
  "latest_submission_confirms (lastcfSubmission judge_up ''abc'') ''100'' ''A''
   \<and> button_handler judge_up store (done_customId ''abc'' (''100'' @ ''/'' @ ''A'')) ''d9'' ''g''
       = (SignedIn, store\<lparr>users := users store @ [new_user store ''d9'' ''abc'' ''g'']\<rparr>)
   \<and> \<not> latest_submission_confirms (lastcfSubmission judge_up ''abc'') ''101'' ''A''
   \<and> snd (button_handler judge_up store (done_customId ''abc'' (''101'' @ ''/'' @ ''A'')) ''d9'' ''g'')
       = store
   \<and> lastcfSubmission judge_down ''abc'' = None
   \<and> button_handler judge_down store (done_customId ''abc'' (''100'' @ ''/'' @ ''A'')) ''d9'' ''g''
       = (CouldNotRetrieve, store)"
proof -
  have h1: "''abc'' \<noteq> []" by simp
  have h2: "CHR ''|'' \<notin> set ''abc''" by simp
  have h3: "CHR ''|'' \<notin> set ''100''" by simp
  have h3': "CHR ''|'' \<notin> set ''101''" by simp
  have h4: "CHR ''|'' \<notin> set ''A''" by simp
  have h5: "CHR ''/'' \<notin> set ''100''" by simp
  have h5': "CHR ''/'' \<notin> set ''101''" by simp
  have h6: "CHR ''/'' \<notin> set ''A''" by simp
  have last: "lastcfSubmission judge_up ''abc''
      = Some \<lparr>problem = \<lparr>contestId = Some 100, index = ''A''\<rparr>, verdict = Some ''COMPILATION_ERROR''\<rparr>"
    by (simp add: lastcfSubmission_def judge_up_def)
  have yes: "latest_submission_confirms (lastcfSubmission judge_up ''abc'') ''100'' ''A''"
    by (simp add: last latest_submission_confirms_def show_int_def show_nat.simps digit_char_def)
  have no: "\<not> latest_submission_confirms (lastcfSubmission judge_up ''abc'') ''101'' ''A''"
    by (simp add: last latest_submission_confirms_def show_int_def show_nat.simps digit_char_def)
  have down: "lastcfSubmission judge_down ''abc'' = None"
    by (simp add: lastcfSubmission_def judge_down_def)
  from login_gate_plain_handle[OF h1 h2 h3 h4 h5 h6, of judge_up store "''d9''" "''g''"]
    login_gate_plain_handle[OF h1 h2 h3' h4 h5' h6, of judge_up store "''d9''" "''g''"]
    login_gate_plain_handle[OF h1 h2 h3 h4 h5 h6, of judge_down store "''d9''" "''g''"]
    yes no down
  show ?thesis by blast
qed

text \<open>
  C5 (as the code has it). The claim says that a press of the confirmation button that
  encodes a handle and a problem id creates a user record only when the latest
  submission of that handle is on that problem, with the verdict COMPILATION_ERROR. The
  login command puts the handle it is given between the separators of the button's id
  unchanged. For the handle \<^verbatim>\<open>abc|100/A|x\<close> and the assigned problem 1500/A the id reads
  \<^verbatim>\<open>done|abc|100/A|x|1500/A\<close>, and the button handler takes abc for the handle and 100/A
  for the problem. The judge has no submission for the handle of the login, and the
  latest submission of abc is not on the assigned problem 1500/A, yet the handler signs
  the caller in as abc.
\<close>

theorem login_gate_separator_in_handle:
  "login judge_up 0 (Some ''abc|100/A|x'')
     = Prompt ''https://codeforces.com/contest/1500/problem/A'' ''done|abc|100/A|x|1500/A''
   \<and> done_customId ''abc|100/A|x'' ''1500/A'' = ''done|abc|100/A|x|1500/A''
   \<and> lastcfSubmission judge_up ''abc|100/A|x'' = None
   \<and> \<not> latest_submission_confirms (lastcfSubmission judge_up ''abc|100/A|x'') ''1500'' ''A''
   \<and> \<not> latest_submission_confirms (lastcfSubmission judge_up ''abc'') ''1500'' ''A''
   \<and> button_handler judge_up store ''done|abc|100/A|x|1500/A'' ''d9'' ''g''
       = (SignedIn, store\<lparr>users := users store @ [new_user store ''d9'' ''abc'' ''g'']\<rparr>)"
proof -
  have a: "login judge_up 0 (Some ''abc|100/A|x'')
     = Prompt ''https://codeforces.com/contest/1500/problem/A'' ''done|abc|100/A|x|1500/A''"
    by (simp add: login_def getRandomProblemUrl_def judge_up_def show_contestId_def
        done_customId_def show_int_def show_nat.simps digit_char_def)
  have b: "done_customId ''abc|100/A|x'' ''1500/A'' = ''done|abc|100/A|x|1500/A''"
    by (simp add: done_customId_def)
  have c: "lastcfSubmission judge_up ''abc|100/A|x'' = None"
    by (simp add: lastcfSubmission_def judge_up_def)
  have d: "\<not> latest_submission_confirms (lastcfSubmission judge_up ''abc|100/A|x'') ''1500'' ''A''"
    by (simp add: c latest_submission_confirms_def)
  have e: "\<not> latest_submission_confirms (lastcfSubmission judge_up ''abc'') ''1500'' ''A''"
    by (simp add: lastcfSubmission_def judge_up_def latest_submission_confirms_def show_int_def
        show_nat.simps digit_char_def)
  have f: "button_handler judge_up store ''done|abc|100/A|x|1500/A'' ''d9'' ''g''
       = (SignedIn, store\<lparr>users := users store @ [new_user store ''d9'' ''abc'' ''g'']\<rparr>)"
    by (simp add: button_handler_def startsWith_def lastcfSubmission_def judge_up_def
        submission_matches_def show_int_def show_nat.simps digit_char_def numeral_2_eq_2)
  from a b c d e f show ?thesis by blast
qed

text \<open>
  C6. For three members with the points 10, 10 and 5, all with resolved users, the
  rendered ranks are 1, 1 and 3, in the rows and in the text of both renderings.
\<close>

theorem ranks_10_10_5:
  "map fst (leaderboard_rows
      [(a\<lparr>points := 10\<rparr>, Some u), (b\<lparr>points := 10\<rparr>, Some v), (c\<lparr>points := 5\<rparr>, Some w)])
     = [1, 1, 3]
   \<and> updateLeaderboard_text
      [(a\<lparr>points := 10\<rparr>, Some u), (b\<lparr>points := 10\<rparr>, Some v), (c\<lparr>points := 5\<rparr>, Some w)]
     = leaderboard_header
         @ ''1. <@'' @ user_id u @ ''> - 10 point(s)'' @ [CHR 0x0A]
         @ ''1. <@'' @ user_id v @ ''> - 10 point(s)'' @ [CHR 0x0A]
         @ ''3. <@'' @ user_id w @ ''> - 5 point(s)'' @ [CHR 0x0A]
   \<and> leaderboard_text
      [(a\<lparr>points := 10\<rparr>, Some u), (b\<lparr>points := 10\<rparr>, Some v), (c\<lparr>points := 5\<rparr>, Some w)]
     = leaderboard_header
         @ ''1. <@'' @ user_id u @ ''> - 10 point(s)'' @ [CHR 0x0A]
         @ ''1. <@'' @ user_id v @ ''> - 10 point(s)'' @ [CHR 0x0A]
         @ ''3. <@'' @ user_id w @ ''> - 5 point(s)'' @ [CHR 0x0A]"
  by (simp add: leaderboard_rows_def sort_members_def updateLeaderboard_text_def
      leaderboard_text_def leaderboard_line_def show_int_def show_nat.simps digit_char_def)

text \<open>
  C7. In the check flow, for a caller who is logged in, in a guild whose daily problem
  has the form contestId/index: when the request for the submissions fails, with an HTTP
  error or with a status other than OK, hasSolvedProblem returns null and does not throw,
  the caller gets the error reply about the submissions, and the store is as it was; no
  leaderboard refresh is started.
\<close>

theorem check_fetch_failure:
  assumes "find (\<lambda>u. user_id u = uid) (users db) = Some u"
    and "find_index_opt (\<lambda>s. daily s \<noteq> None \<and> guildId s = gid) (servers db) = Some si"
    and "daily (servers db ! si) = Some d" and "d \<noteq> []"
    and "parse_problemId d = Inr (cid, ix)"
    and "fetch_failed (user_status judge (cfUsername u))"
  shows "hasSolvedProblem judge (cfUsername u) d = Inr None
   \<and> check_handler judge db uid gid = (SubmissionsError, db, False)
   \<and> check_flow judge env db uid gid = (SubmissionsError, db)"
proof -
  have a: "hasSolvedProblem judge (cfUsername u) d = Inr None"
    using assms(5,6) by (simp add: hasSolvedProblem_def fetch_failed_def split: api_response.splits)
  have b: "check_handler judge db uid gid = (SubmissionsError, db, False)"
    using assms(1-4) a by (simp add: check_handler_def Let_def)
  from a b show ?thesis by (simp add: check_flow_def)
qed

text \<open>The theorem at bob in the example store, with a judge whose requests fail.\<close>

theorem check_fetch_failure_witness:
  "find (\<lambda>u. user_id u = ''d2'') (users store) = Some bob
   \<and> find_index_opt (\<lambda>s. daily s \<noteq> None \<and> guildId s = ''g'') (servers store) = Some 0
   \<and> daily (servers store ! 0) = Some ''1500/A''
   \<and> parse_problemId ''1500/A'' = Inr (1500, ''A'')
   \<and> fetch_failed (user_status judge_down (cfUsername bob))
   \<and> hasSolvedProblem judge_down (cfUsername bob) ''1500/A'' = Inr None
   \<and> check_handler judge_down store ''d2'' ''g'' = (SubmissionsError, store, False)
   \<and> check_flow judge_down platform store ''d2'' ''g'' = (SubmissionsError, store)"
proof -
  have h1: "find (\<lambda>u. user_id u = ''d2'') (users store) = Some bob"
    by (simp add: store_def alice_def bob_def)
  have h2: "find_index_opt (\<lambda>s. daily s \<noteq> None \<and> guildId s = ''g'') (servers store) = Some 0"
    by (simp add: store_def guild_def)
  have h3: "daily (servers store ! 0) = Some ''1500/A''"
    by (simp add: store_def guild_def)
  have h4: "''1500/A'' \<noteq> []" by simp
  note h5 = parse_problemId_1500_A
  have h6: "fetch_failed (user_status judge_down (cfUsername bob))"
    by (simp add: fetch_failed_def judge_down_def)
  from check_fetch_failure[OF h1 h2 h3 h4 h5 h6, of platform] h1 h2 h3 h5 h6
  show ?thesis by simp
qed

text \<open>
  C8. A successful setdailyproblem in a guild that has a record writes only the daily
  problem of that record: the users, and in every guild record the member entries with
  their points and last submitted, the guild id, the two channel ids and the last message
  id are as before.
\<close>

theorem setdailyproblem_only_daily:
  assumes "regex_match url = Some (cid, ix)"
    and "validateProblemUrl judge cid ix"
    and "find_index_opt (\<lambda>s. guildId s = gid) (servers db) = Some si"
  shows "(\<exists>warnings. fst (setdailyproblem judge env db True (Some url) gid) = DailySet url warnings)
   \<and> snd (setdailyproblem judge env db True (Some url) gid)
       = db\<lparr>servers := (servers db)[si := (servers db ! si)\<lparr>daily := Some (cid @ ''/'' @ ix)\<rparr>]\<rparr>
   \<and> users (snd (setdailyproblem judge env db True (Some url) gid)) = users db
   \<and> map (\<lambda>s. (members s, guildId s, channelId s, announcementChannelId s, messageId s))
         (servers (snd (setdailyproblem judge env db True (Some url) gid)))
       = map (\<lambda>s. (members s, guildId s, channelId s, announcementChannelId s, messageId s))
           (servers db)"
proof -
  have url: "url \<noteq> []"
    using assms(1) by (auto simp: match_here_def match_tail_def)
  have si: "si < length (servers db)"
    using assms(3) by (simp add: find_index_opt_Some)
  have a: "snd (setdailyproblem judge env db True (Some url) gid)
       = db\<lparr>servers := (servers db)[si := (servers db ! si)\<lparr>daily := Some (cid @ ''/'' @ ix)\<rparr>]\<rparr>"
    using assms url by (simp add: setdailyproblem_def Let_def)
  have b: "\<exists>warnings. fst (setdailyproblem judge env db True (Some url) gid) = DailySet url warnings"
    using assms url by (simp add: setdailyproblem_def Let_def)
  have c: "map (\<lambda>s. (members s, guildId s, channelId s, announcementChannelId s, messageId s))
         ((servers db)[si := (servers db ! si)\<lparr>daily := Some (cid @ ''/'' @ ix)\<rparr>])
       = map (\<lambda>s. (members s, guildId s, channelId s, announcementChannelId s, messageId s))
           (servers db)"
    using si by (simp add: map_update list_update_same_conv)
  from a b c show ?thesis by simp
qed

text \<open>The theorem at the example store, with a URL that the pattern matches.\<close>

theorem setdailyproblem_only_daily_witness:
  "regex_match ''https://codeforces.com/problemset/problem/1500/A'' = Some (''1500'', ''A'')
   \<and> validateProblemUrl judge_up ''1500'' ''A''
   \<and> find_index_opt (\<lambda>s. guildId s = ''g'') (servers store) = Some 0
   \<and> snd (setdailyproblem judge_up platform store True
            (Some ''https://codeforces.com/problemset/problem/1500/A'') ''g'')
       = store\<lparr>servers := [guild\<lparr>daily := Some ''1500/A''\<rparr>]\<rparr>"
proof -
  have h1: "regex_match ''https://codeforces.com/problemset/problem/1500/A'' = Some (''1500'', ''A'')"
    by (simp add: match_here_def match_tail_def is_digit_def is_upper_or_digit_def)
  have h2: "validateProblemUrl judge_up ''1500'' ''A''"
    by (simp add: validateProblemUrl_def judge_up_def show_int_def show_nat.simps digit_char_def)
  have h3: "find_index_opt (\<lambda>s. guildId s = ''g'') (servers store) = Some 0"
    by (simp add: store_def guild_def)
  from setdailyproblem_only_daily[OF h1 h2 h3, of platform] h1 h2 h3
  show ?thesis by (simp add: store_def)
qed

text \<open>
  C9. The uptime formatter maps 90061 seconds to the string "1d, 1h, 1m, 1s".
\<close>

theorem formatUptime_90061: "formatUptime 90061 = ''1d, 1h, 1m, 1s''"
  by (simp add: formatUptime_def js_rem_def show_int_def show_nat.simps digit_char_def)

text \<open>
  C10. The loop of the leaderboard command and the loop of updateLeaderboard build the
  same text from the same list of members, sorted or not and whether or not the users
  are resolved; so do the two renderings with their sort.
\<close>

theorem leaderboard_command_text_eq:
  "leaderboard_loop pms 0 0 (- 1) leaderboard_header
     = updateLeaderboard_loop pms 0 0 (- 1) leaderboard_header
   \<and> leaderboard_text pms = updateLeaderboard_text pms"
  by (simp add: leaderboard_loop_eq leaderboard_text_def updateLeaderboard_text_def)

end
